theory Spec2Isabelle
  imports Main
begin

section \<open>Conversation messages of the client\<close>

text \<open>
  The endpoint reads \<open>system\<close>, \<open>messages\<close> and \<open>tools\<close> from the JSON body of the request,
  so the payloads that the converter only carries along (\<open>args\<close>, \<open>result\<close>) are JSON values.
  The converter inspects such a value in one place only: \<open>if (part.result)\<close>, JavaScript's
  truthiness test. Numbers are kept as integers; the test only asks whether a number is zero.
\<close>

datatype json =
    JNull
  | JBool bool
  | JNumber int
  | JString string
  | JArray "json list"
  | JObject "(string \<times> json) list"

text \<open>JavaScript's \<open>ToBoolean\<close> on a JSON value: \<open>null\<close>, \<open>false\<close>, \<open>0\<close> and the empty
  string are falsy, every array and every object is truthy.\<close>

fun truthy :: "json \<Rightarrow> bool" where
  "truthy JNull = False"
| "truthy (JBool b) = b"
| "truthy (JNumber n) = (n \<noteq> 0)"
| "truthy (JString s) = (s \<noteq> [])"
| "truthy (JArray xs) = True"
| "truthy (JObject kvs) = True"

text \<open>
  A content part is tagged by its \<open>type\<close> field. \<open>TextContentPart t\<close> is \<open>{type: "text", text: t}\<close>,
  \<open>ImageContentPart s\<close> is \<open>{type: "image", image: s}\<close>, and
  \<open>ToolCallContentPart toolCallId toolName args result\<close> is a \<open>"tool-call"\<close> part whose optional
  \<open>result\<close> field is \<open>None\<close> when the field is absent (\<open>undefined\<close>).
  \<open>UnknownContentPart ty\<close> stands for a part whose tag \<open>ty\<close> is none of these three: the
  declared types exclude it, the \<open>default\<close> branches of the switches receive it.
\<close>

datatype ContentPart =
    TextContentPart string
  | ImageContentPart string
  | ToolCallContentPart string string json "json option"
  | UnknownContentPart string

fun part_type :: "ContentPart \<Rightarrow> string" where
  "part_type (TextContentPart t) = ''text''"
| "part_type (ImageContentPart s) = ''image''"
| "part_type (ToolCallContentPart i n a r) = ''tool-call''"
| "part_type (UnknownContentPart ty) = ty"

text \<open>The \<open>text\<close> property of a part: \<open>undefined\<close> (\<open>None\<close>) for a part that has none.\<close>

fun text_field :: "ContentPart \<Rightarrow> string option" where
  "text_field (TextContentPart t) = Some t"
| "text_field (ImageContentPart s) = None"
| "text_field (ToolCallContentPart i n a r) = None"
| "text_field (UnknownContentPart ty) = None"

text \<open>
  A message as it arrives: its \<open>role\<close> tag and its \<open>content\<close> array. The declared type
  allows the roles \<open>system\<close>, \<open>user\<close> and \<open>assistant\<close> and fixes the parts each may hold;
  the request body is not validated, so the model keeps the tag as a string and the
  content as an array of any parts, of any length.
\<close>

record CoreThreadMessage =
  role :: string
  content :: "ContentPart list"

section \<open>Prompt messages of the language model\<close>

text \<open>
  The image of a user prompt part is a parsed URL; its type \<open>'url\<close> is left open. The
  content of a system prompt message is the value of a property read, \<open>Some t\<close> for the
  string \<open>t\<close> and \<open>None\<close> for \<open>undefined\<close>.
\<close>

datatype 'url LanguageModelV1UserPart =
    UserTextPart string
  | LanguageModelV1ImagePart 'url

datatype LanguageModelV1AssistantPart =
    LanguageModelV1TextPart string
  | LanguageModelV1ToolCallPart string string json

datatype LanguageModelV1ToolResultPart =
    ToolResultPart string string json

datatype 'url LanguageModelV1Message =
    SystemPrompt "string option"
  | UserPrompt "'url LanguageModelV1UserPart list"
  | AssistantPrompt "LanguageModelV1AssistantPart list"
  | ToolPrompt "LanguageModelV1ToolResultPart list"

section \<open>Exceptions\<close>

text \<open>
  One constructor for each place where the converter throws:
  \<^item> \<open>CannotReadText\<close>: the \<open>TypeError\<close> of reading \<open>.text\<close> of \<open>undefined\<close> in
    \<open>message.content[0].text\<close>;
  \<^item> \<open>InvalidURL s\<close>: the \<open>TypeError\<close> that \<open>new URL(s)\<close> throws;
  \<^item> \<open>UnsupportedContentPartType ty\<close>: \<open>Error("Unspported content part type: ty")\<close> of the
    user case;
  \<^item> \<open>UnhandledContentPartType ty\<close>: \<open>Error("Unhandled content part type: ty")\<close> of the
    assistant case;
  \<^item> \<open>UnknownMessageRole r\<close>: \<open>Error("Unknown message role: r")\<close>.
\<close>

datatype error =
    CannotReadText
  | InvalidURL string
  | UnsupportedContentPartType string
  | UnhandledContentPartType string
  | UnknownMessageRole string

section \<open>The splitter of an assistant message\<close>

text \<open>
  The closure \<open>assistantMessageSplitter\<close> owns three variables; the model passes them along
  as a record. \<open>assistantMessage\<close> and \<open>toolMessage\<close> hold the \<open>content\<close> arrays of the two
  objects under construction (their roles are fixed).
\<close>

record 'url splitter =
  stash :: "'url LanguageModelV1Message list"
  assistantMessage :: "LanguageModelV1AssistantPart list"
  toolMessage :: "LanguageModelV1ToolResultPart list"

definition assistantMessageSplitter :: "'url splitter" where
  "assistantMessageSplitter = \<lparr>stash = [], assistantMessage = [], toolMessage = []\<rparr>"

definition addTextContentPart :: "'url splitter \<Rightarrow> string \<Rightarrow> 'url splitter" where
  "addTextContentPart s t =
     (let s' = (if length (toolMessage s) > 0
                then \<lparr>stash = stash s @ [AssistantPrompt (assistantMessage s), ToolPrompt (toolMessage s)],
                      assistantMessage = [],
                      toolMessage = []\<rparr>
                else s)
      in s'\<lparr>assistantMessage := assistantMessage s' @ [LanguageModelV1TextPart t]\<rparr>)"

definition addToolCallPart ::
  "'url splitter \<Rightarrow> string \<Rightarrow> string \<Rightarrow> json \<Rightarrow> json option \<Rightarrow> 'url splitter" where
  "addToolCallPart s toolCallId toolName args result =
     (let s' = s\<lparr>assistantMessage :=
                    assistantMessage s @ [LanguageModelV1ToolCallPart toolCallId toolName args]\<rparr>
      in case result of
           None \<Rightarrow> s'
         | Some r \<Rightarrow>
             if truthy r
             then s'\<lparr>toolMessage := toolMessage s' @ [ToolResultPart toolCallId toolName r]\<rparr>
             else s')"

definition getMessages :: "'url splitter \<Rightarrow> 'url LanguageModelV1Message list" where
  "getMessages s =
     (if length (toolMessage s) > 0
      then stash s @ [AssistantPrompt (assistantMessage s), ToolPrompt (toolMessage s)]
      else stash s @ [AssistantPrompt (assistantMessage s)])"

text \<open>The \<open>for\<close> loop over the parts of an assistant message; the \<open>default\<close> branch throws.\<close>

fun addParts :: "'url splitter \<Rightarrow> ContentPart list \<Rightarrow> error + 'url splitter" where
  "addParts s [] = Inr s"
| "addParts s (TextContentPart t # ps) = addParts (addTextContentPart s t) ps"
| "addParts s (ToolCallContentPart i n a r # ps) = addParts (addToolCallPart s i n a r) ps"
| "addParts s (p # ps) = Inl (UnhandledContentPartType (part_type p))"

section \<open>The converter\<close>

text \<open>
  \<open>Array.prototype.map\<close> and \<open>flatMap\<close> with a callback that may throw: the callback runs on
  the elements in order and the first exception leaves the whole call.
\<close>

fun mapE :: "('a \<Rightarrow> error + 'b) \<Rightarrow> 'a list \<Rightarrow> error + 'b list" where
  "mapE f [] = Inr []"
| "mapE f (x # xs) =
     (case f x of
        Inl e \<Rightarrow> Inl e
      | Inr y \<Rightarrow> (case mapE f xs of Inl e \<Rightarrow> Inl e | Inr ys \<Rightarrow> Inr (y # ys)))"

fun flatMapE :: "('a \<Rightarrow> error + 'b list) \<Rightarrow> 'a list \<Rightarrow> error + 'b list" where
  "flatMapE f [] = Inr []"
| "flatMapE f (x # xs) =
     (case f x of
        Inl e \<Rightarrow> Inl e
      | Inr ys \<Rightarrow> (case flatMapE f xs of Inl e \<Rightarrow> Inl e | Inr zs \<Rightarrow> Inr (ys @ zs)))"

text \<open>
  The callback of the user case. \<open>URL\<close> is the platform's URL parser, a parameter of the
  model: \<open>URL s = None\<close> when \<open>new URL(s)\<close> throws.
\<close>

fun convertUserPart ::
  "(string \<Rightarrow> 'url option) \<Rightarrow> ContentPart \<Rightarrow> error + 'url LanguageModelV1UserPart" where
  "convertUserPart URL (TextContentPart t) = Inr (UserTextPart t)"
| "convertUserPart URL (ImageContentPart s) =
     (case URL s of None \<Rightarrow> Inl (InvalidURL s) | Some u \<Rightarrow> Inr (LanguageModelV1ImagePart u))"
| "convertUserPart URL p = Inl (UnsupportedContentPartType (part_type p))"

definition convertToLanguageModelMessage ::
  "(string \<Rightarrow> 'url option) \<Rightarrow> CoreThreadMessage \<Rightarrow> error + 'url LanguageModelV1Message list" where
  "convertToLanguageModelMessage URL message =
     (if role message = ''system'' then
        (case content message of
           [] \<Rightarrow> Inl CannotReadText
         | part # rest \<Rightarrow> Inr [SystemPrompt (text_field part)])
      else if role message = ''user'' then
        (case mapE (convertUserPart URL) (content message) of
           Inl e \<Rightarrow> Inl e
         | Inr parts \<Rightarrow> Inr [UserPrompt parts])
      else if role message = ''assistant'' then
        (case addParts assistantMessageSplitter (content message) of
           Inl e \<Rightarrow> Inl e
         | Inr splitter \<Rightarrow> Inr (getMessages splitter))
      else Inl (UnknownMessageRole (role message)))"

text \<open>\<open>system != null\<close> holds for every string, the empty one too; \<open>None\<close> is \<open>undefined\<close>
  or \<open>null\<close>.\<close>

definition convertToLanguageModelPrompt ::
  "(string \<Rightarrow> 'url option) \<Rightarrow> string option \<Rightarrow> CoreThreadMessage list
     \<Rightarrow> error + 'url LanguageModelV1Message list" where
  "convertToLanguageModelPrompt URL system messages =
     (let languageModelMessages = (case system of None \<Rightarrow> [] | Some s \<Rightarrow> [SystemPrompt (Some s)])
      in case flatMapE (convertToLanguageModelMessage URL) messages of
           Inl e \<Rightarrow> Inl e
         | Inr converted \<Rightarrow> Inr (languageModelMessages @ converted))"

section \<open>The error taxonomy of the specification\<close>

text \<open>
  The specification names three kinds of conversion failure: \<open>MalformedContent\<close> (a reference
  that does not parse), \<open>UnknownRole\<close> and \<open>UnknownContentType\<close> (a tag that the switches do
  not list). \<open>taxonomy\<close> gives the kind of each exception of the converter, and \<open>None\<close> for
  an exception that is none of them.
\<close>

datatype spec_error = MalformedContent | UnknownRole | UnknownContentType

fun taxonomy :: "error \<Rightarrow> spec_error option" where
  "taxonomy CannotReadText = None"
| "taxonomy (InvalidURL s) = Some MalformedContent"
| "taxonomy (UnsupportedContentPartType ty) = Some UnknownContentType"
| "taxonomy (UnhandledContentPartType ty) = Some UnknownContentType"
| "taxonomy (UnknownMessageRole r) = Some UnknownRole"

section \<open>Predicates and sample data of the verification\<close>

text \<open>
  A stand-in for the platform's URL parser, used only to run the theorems on concrete
  messages: it accepts one address and rejects every other string.
\<close>

definition example_URL :: "string \<Rightarrow> string option" where
  "example_URL s = (if s = ''https://example.com/cat.png'' then Some s else None)"

text \<open>
  A part that the declared type of a user message allows and whose image reference, if
  it is an image part, parses.
\<close>

definition well_formed_user_part :: "(string \<Rightarrow> 'url option) \<Rightarrow> ContentPart \<Rightarrow> bool" where
  "well_formed_user_part URL p =
     (case p of
        TextContentPart t \<Rightarrow> True
      | ImageContentPart s \<Rightarrow> URL s \<noteq> None
      | ToolCallContentPart i n a r \<Rightarrow> False
      | UnknownContentPart ty \<Rightarrow> False)"

text \<open>A part that the declared type of an assistant message allows.\<close>

definition well_formed_assistant_part :: "ContentPart \<Rightarrow> bool" where
  "well_formed_assistant_part p =
     (case p of
        TextContentPart t \<Rightarrow> True
      | ImageContentPart s \<Rightarrow> False
      | ToolCallContentPart i n a r \<Rightarrow> True
      | UnknownContentPart ty \<Rightarrow> False)"

text \<open>
  The (call id, tool name) pairs of the tool calls of an assistant prompt message, and of
  the entries of a tool prompt message.
\<close>

fun tool_calls :: "LanguageModelV1AssistantPart list \<Rightarrow> (string \<times> string) list" where
  "tool_calls [] = []"
| "tool_calls (LanguageModelV1TextPart t # ps) = tool_calls ps"
| "tool_calls (LanguageModelV1ToolCallPart i n a # ps) = (i, n) # tool_calls ps"

fun tool_results :: "LanguageModelV1ToolResultPart list \<Rightarrow> (string \<times> string) list" where
  "tool_results [] = []"
| "tool_results (ToolResultPart i n v # rs) = (i, n) # tool_results rs"

definition resolves ::
  "LanguageModelV1AssistantPart list \<Rightarrow> LanguageModelV1ToolResultPart list \<Rightarrow> bool" where
  "resolves parts results = (set (tool_results results) \<subseteq> set (tool_calls parts))"

text \<open>
  \<open>tool_follows_assistant prev msgs\<close>: in \<open>msgs\<close>, read after the message \<open>prev\<close> (if any),
  every tool message stands right after an assistant message that holds the calls it
  resolves.
\<close>

fun tool_follows_assistant ::
  "'url LanguageModelV1Message option \<Rightarrow> 'url LanguageModelV1Message list \<Rightarrow> bool" where
  "tool_follows_assistant prev [] = True"
| "tool_follows_assistant prev (ToolPrompt results # rest) =
     ((case prev of
         Some (AssistantPrompt parts) \<Rightarrow> resolves parts results
       | _ \<Rightarrow> False)
      \<and> tool_follows_assistant (Some (ToolPrompt results)) rest)"
| "tool_follows_assistant prev (msg # rest) = tool_follows_assistant (Some msg) rest"

text \<open>The invariant of the splitter's three variables.\<close>

definition splitter_inv :: "'url splitter \<Rightarrow> bool" where
  "splitter_inv s =
     (tool_follows_assistant None (stash s) \<and> resolves (assistantMessage s) (toolMessage s))"

section \<open>Conversion of a conversation, message by message\<close>

lemma flatMapE_append:
  "flatMapE f (xs @ ys) =
     (case flatMapE f xs of
        Inl e \<Rightarrow> Inl e
      | Inr a \<Rightarrow> (case flatMapE f ys of Inl e \<Rightarrow> Inl e | Inr b \<Rightarrow> Inr (a @ b)))"
  by (induction xs) (auto split: sum.splits)

lemma flatMapE_Inr_iff:
  "flatMapE f xs = Inr out \<longleftrightarrow>
     (\<exists>outs. list_all2 (\<lambda>x ys. f x = Inr ys) xs outs \<and> out = concat outs)"
proof (induction xs arbitrary: out)
  case Nil
  then show ?case by auto
next
  case (Cons x xs)
  show ?case
  proof (cases "f x")
    case (Inl e)
    then show ?thesis by (auto simp: list_all2_Cons1)
  next
    case (Inr ys)
    show ?thesis
    proof (cases "flatMapE f xs")
      case (Inl e)
      with Inr Cons.IH show ?thesis by (auto simp: list_all2_Cons1)
    next
      case r: (Inr zs)
      from Cons.IH [of zs] r obtain outs0
        where o: "list_all2 (\<lambda>x ys. f x = Inr ys) xs outs0" "zs = concat outs0"
        by auto
      have uniq: "concat outs' = zs" if "list_all2 (\<lambda>x ys. f x = Inr ys) xs outs'" for outs'
        using Cons.IH [of "concat outs'"] r that by auto
      show ?thesis
      proof
        assume "flatMapE f (x # xs) = Inr out"
        with Inr r have "out = ys @ zs" by simp
        with o Inr have "list_all2 (\<lambda>x ys. f x = Inr ys) (x # xs) (ys # outs0) \<and> out = concat (ys # outs0)"
          by simp
        then show "\<exists>outs. list_all2 (\<lambda>x ys. f x = Inr ys) (x # xs) outs \<and> out = concat outs"
          by blast
      next
        assume "\<exists>outs. list_all2 (\<lambda>x ys. f x = Inr ys) (x # xs) outs \<and> out = concat outs"
        then obtain y' outs' where "f x = Inr y'" "list_all2 (\<lambda>x ys. f x = Inr ys) xs outs'"
          "out = y' @ concat outs'"
          by (auto simp: list_all2_Cons1)
        with Inr uniq have "out = ys @ zs" by auto
        with Inr r show "flatMapE f (x # xs) = Inr out" by simp
      qed
    qed
  qed
qed

lemma convertToLanguageModelPrompt_None:
  "convertToLanguageModelPrompt URL None messages =
     flatMapE (convertToLanguageModelMessage URL) messages"
  by (simp add: convertToLanguageModelPrompt_def split: sum.splits)

text \<open>
  Claim C5. Without a system preamble the conversion is a homomorphism from conversations
  to prompts: a one-message conversation converts as its message does; the conversion of
  \<open>xs @ ys\<close> is the conversion of \<open>xs\<close> followed by that of \<open>ys\<close> (and throws what the first
  of them throws); and the conversion returns \<open>out\<close> exactly when every message converts
  on its own and \<open>out\<close> is the concatenation of their outputs in input order.
\<close>

theorem convert_per_message_homomorphism:
  "convertToLanguageModelPrompt URL None [m] = convertToLanguageModelMessage URL m
 \<and> convertToLanguageModelPrompt URL None (xs @ ys) =
     (case convertToLanguageModelPrompt URL None xs of
        Inl e \<Rightarrow> Inl e
      | Inr a \<Rightarrow>
          (case convertToLanguageModelPrompt URL None ys of
             Inl e \<Rightarrow> Inl e
           | Inr b \<Rightarrow> Inr (a @ b)))
 \<and> (convertToLanguageModelPrompt URL None messages = Inr out \<longleftrightarrow>
      (\<exists>outs. list_all2 (\<lambda>m ys. convertToLanguageModelMessage URL m = Inr ys) messages outs
             \<and> out = concat outs))"
  unfolding convertToLanguageModelPrompt_None
  by (simp add: flatMapE_append flatMapE_Inr_iff split: sum.splits)

section \<open>The splitter\<close>

text \<open>
  Claim C3. \<open>getMessages\<close> returns the stash, then the current assistant message, then
  the current tool message if it holds a result; so an assistant message of two tool calls
  without result converts to one assistant prompt message holding both calls, and no tool
  message.
\<close>

theorem getMessages_finalization:
  "getMessages s =
     (if toolMessage s \<noteq> []
      then stash s @ [AssistantPrompt (assistantMessage s)] @ [ToolPrompt (toolMessage s)]
      else stash s @ [AssistantPrompt (assistantMessage s)])
 \<and> convertToLanguageModelMessage URL
      \<lparr>role = ''assistant'',
       content = [ToolCallContentPart idA nameA argsA None,
                  ToolCallContentPart idB nameB argsB None]\<rparr>
    = Inr [AssistantPrompt [LanguageModelV1ToolCallPart idA nameA argsA,
                            LanguageModelV1ToolCallPart idB nameB argsB]]"
  by (simp add: getMessages_def convertToLanguageModelMessage_def assistantMessageSplitter_def
      addToolCallPart_def)

text \<open>
  Claim C9. An assistant message without content parts converts, without an exception,
  to one assistant prompt message with an empty content list; no tool message follows.
\<close>

theorem empty_assistant_message:
  "convertToLanguageModelMessage URL \<lparr>role = ''assistant'', content = []\<rparr>
     = Inr [AssistantPrompt []]"
  by (simp add: convertToLanguageModelMessage_def assistantMessageSplitter_def getMessages_def)

section \<open>The system preamble\<close>

lemma convertToLanguageModelPrompt_Some:
  "convertToLanguageModelPrompt URL (Some text) messages =
     (case flatMapE (convertToLanguageModelMessage URL) messages of
        Inl e \<Rightarrow> Inl e
      | Inr out \<Rightarrow> Inr (SystemPrompt (Some text) # out))"
  by (simp add: convertToLanguageModelPrompt_def split: sum.splits)

text \<open>
  Claim C6. With a preamble \<open>text\<close>, the prompt is a system message carrying \<open>text\<close>
  followed by what the messages convert to without a preamble (and the conversion throws
  what it throws without one). Without a preamble the prompt holds the conversions of the
  messages and nothing else. The scenario of the specification: the preamble
  \<open>be terse\<close> and one user message \<open>hi\<close>.
\<close>

theorem system_preamble_first:
  "(convertToLanguageModelPrompt URL None messages = Inr out \<longrightarrow>
      convertToLanguageModelPrompt URL (Some text) messages = Inr (SystemPrompt (Some text) # out))
 \<and> (convertToLanguageModelPrompt URL None messages = Inl e \<longrightarrow>
      convertToLanguageModelPrompt URL (Some text) messages = Inl e)
 \<and> (convertToLanguageModelPrompt URL None messages = Inr out \<longrightarrow>
      (\<exists>outs. list_all2 (\<lambda>m ys. convertToLanguageModelMessage URL m = Inr ys) messages outs
             \<and> out = concat outs))
 \<and> convertToLanguageModelPrompt URL (Some ''be terse'')
        [\<lparr>role = ''user'', content = [TextContentPart ''hi'']\<rparr>]
      = Inr [SystemPrompt (Some ''be terse''), UserPrompt [UserTextPart ''hi'']]"
proof (intro conjI impI)
  assume "convertToLanguageModelPrompt URL None messages = Inr out"
  then show "convertToLanguageModelPrompt URL (Some text) messages
      = Inr (SystemPrompt (Some text) # out)"
    by (simp add: convertToLanguageModelPrompt_None convertToLanguageModelPrompt_Some)
next
  assume "convertToLanguageModelPrompt URL None messages = Inl e"
  then show "convertToLanguageModelPrompt URL (Some text) messages = Inl e"
    by (simp add: convertToLanguageModelPrompt_None convertToLanguageModelPrompt_Some)
next
  assume "convertToLanguageModelPrompt URL None messages = Inr out"
  then show "\<exists>outs. list_all2 (\<lambda>m ys. convertToLanguageModelMessage URL m = Inr ys) messages outs
             \<and> out = concat outs"
    by (simp add: convertToLanguageModelPrompt_None flatMapE_Inr_iff)
next
  show "convertToLanguageModelPrompt URL (Some ''be terse'')
        [\<lparr>role = ''user'', content = [TextContentPart ''hi'']\<rparr>]
      = Inr [SystemPrompt (Some ''be terse''), UserPrompt [UserTextPart ''hi'']]"
    by (simp add: convertToLanguageModelPrompt_Some convertToLanguageModelMessage_def)
qed

theorem system_preamble_first_witness:
  "convertToLanguageModelPrompt example_URL None
       [\<lparr>role = ''assistant'', content = [TextContentPart ''ok'']\<rparr>]
     = Inr [AssistantPrompt [LanguageModelV1TextPart ''ok'']]
 \<and> convertToLanguageModelPrompt example_URL (Some ''be terse'')
       [\<lparr>role = ''assistant'', content = [TextContentPart ''ok'']\<rparr>]
     = Inr [SystemPrompt (Some ''be terse''), AssistantPrompt [LanguageModelV1TextPart ''ok'']]
 \<and> convertToLanguageModelPrompt example_URL None
       [\<lparr>role = ''moderator'', content = []\<rparr>] = Inl (UnknownMessageRole ''moderator'')
 \<and> convertToLanguageModelPrompt example_URL (Some ''be terse'')
       [\<lparr>role = ''moderator'', content = []\<rparr>] = Inl (UnknownMessageRole ''moderator'')"
proof -
  have a: "convertToLanguageModelPrompt example_URL None
       [\<lparr>role = ''assistant'', content = [TextContentPart ''ok'']\<rparr>]
     = Inr [AssistantPrompt [LanguageModelV1TextPart ''ok'']]"
    by (simp add: convertToLanguageModelPrompt_def convertToLanguageModelMessage_def
        assistantMessageSplitter_def addTextContentPart_def getMessages_def)
  have b: "convertToLanguageModelPrompt example_URL None
       [\<lparr>role = ''moderator'', content = []\<rparr>] = Inl (UnknownMessageRole ''moderator'')"
    by (simp add: convertToLanguageModelPrompt_def convertToLanguageModelMessage_def)
  from a b
    system_preamble_first [of example_URL
      "[\<lparr>role = ''assistant'', content = [TextContentPart ''ok'']\<rparr>]"
      "[AssistantPrompt [LanguageModelV1TextPart ''ok'']]" "''be terse''"]
    system_preamble_first [of example_URL "[\<lparr>role = ''moderator'', content = []\<rparr>]" _
      "''be terse''" "UnknownMessageRole ''moderator''"]
  show ?thesis by blast
qed

section \<open>User messages\<close>

lemma mapE_append:
  "mapE f (xs @ ys) =
     (case mapE f xs of
        Inl e \<Rightarrow> Inl e
      | Inr a \<Rightarrow> (case mapE f ys of Inl e \<Rightarrow> Inl e | Inr b \<Rightarrow> Inr (a @ b)))"
  by (induction xs) (auto split: sum.splits)

lemma mapE_convertUserPart_well_formed:
  "list_all (well_formed_user_part URL) ps \<Longrightarrow>
   \<exists>parts. mapE (convertUserPart URL) ps = Inr parts \<and> length parts = length ps \<and>
     (\<forall>i<length ps.
        (\<forall>t. ps ! i = TextContentPart t \<longrightarrow> parts ! i = UserTextPart t) \<and>
        (\<forall>s. ps ! i = ImageContentPart s \<longrightarrow>
             (\<exists>u. URL s = Some u \<and> parts ! i = LanguageModelV1ImagePart u)))"
proof (induction ps)
  case Nil
  then show ?case by simp
next
  case (Cons p ps)
  then obtain parts
    where parts: "mapE (convertUserPart URL) ps = Inr parts" "length parts = length ps"
    and nth: "\<And>i. i < length ps \<Longrightarrow>
        (\<forall>t. ps ! i = TextContentPart t \<longrightarrow> parts ! i = UserTextPart t) \<and>
        (\<forall>s. ps ! i = ImageContentPart s \<longrightarrow>
             (\<exists>u. URL s = Some u \<and> parts ! i = LanguageModelV1ImagePart u))"
    by auto
  from Cons.prems have wf: "well_formed_user_part URL p" by simp
  then obtain q where q: "convertUserPart URL p = Inr q"
    and first: "(\<forall>t. p = TextContentPart t \<longrightarrow> q = UserTextPart t) \<and>
        (\<forall>s. p = ImageContentPart s \<longrightarrow> (\<exists>u. URL s = Some u \<and> q = LanguageModelV1ImagePart u))"
    by (cases p) (auto simp: well_formed_user_part_def)
  have "mapE (convertUserPart URL) (p # ps) = Inr (q # parts)"
    using q parts by simp
  moreover have "length (q # parts) = length (p # ps)"
    using parts by simp
  moreover have "(\<forall>t. (p # ps) ! i = TextContentPart t \<longrightarrow> (q # parts) ! i = UserTextPart t) \<and>
        (\<forall>s. (p # ps) ! i = ImageContentPart s \<longrightarrow>
             (\<exists>u. URL s = Some u \<and> (q # parts) ! i = LanguageModelV1ImagePart u))"
    if "i < length (p # ps)" for i
  proof (cases i)
    case 0
    with first show ?thesis by simp
  next
    case (Suc j)
    with that nth [of j] show ?thesis by simp
  qed
  ultimately show ?case by blast
qed

text \<open>
  Claim C7. A user message whose parts are text parts and image parts with a reference
  that parses converts to exactly one user prompt message with as many parts, in the same
  order: a text part is passed on as it is, an image part carries what the parser returns
  for its string. When an image reference does not parse (and the parts before it are
  fine), the conversion throws \<open>InvalidURL\<close> for that string, the specification's
  \<open>MalformedContent\<close>, and returns nothing.
\<close>

theorem user_message_conversion:
  "role m = ''user'' \<Longrightarrow>
     (list_all (well_formed_user_part URL) (content m) \<longrightarrow>
        (\<exists>parts. convertToLanguageModelMessage URL m = Inr [UserPrompt parts]
           \<and> length parts = length (content m)
           \<and> (\<forall>i<length (content m).
                (\<forall>t. content m ! i = TextContentPart t \<longrightarrow> parts ! i = UserTextPart t) \<and>
                (\<forall>s. content m ! i = ImageContentPart s \<longrightarrow>
                     (\<exists>u. URL s = Some u \<and> parts ! i = LanguageModelV1ImagePart u)))))
   \<and> (\<forall>pre s post.
         content m = pre @ ImageContentPart s # post \<and> list_all (well_formed_user_part URL) pre
           \<and> URL s = None \<longrightarrow>
         convertToLanguageModelMessage URL m = Inl (InvalidURL s)
           \<and> taxonomy (InvalidURL s) = Some MalformedContent)"
proof (intro conjI impI allI)
  assume u: "role m = ''user''" and wf: "list_all (well_formed_user_part URL) (content m)"
  from mapE_convertUserPart_well_formed [OF wf] obtain parts
    where "mapE (convertUserPart URL) (content m) = Inr parts" "length parts = length (content m)"
      "\<forall>i<length (content m).
        (\<forall>t. content m ! i = TextContentPart t \<longrightarrow> parts ! i = UserTextPart t) \<and>
        (\<forall>s. content m ! i = ImageContentPart s \<longrightarrow>
             (\<exists>u. URL s = Some u \<and> parts ! i = LanguageModelV1ImagePart u))"
    by blast
  with u show "\<exists>parts. convertToLanguageModelMessage URL m = Inr [UserPrompt parts]
           \<and> length parts = length (content m)
           \<and> (\<forall>i<length (content m).
                (\<forall>t. content m ! i = TextContentPart t \<longrightarrow> parts ! i = UserTextPart t) \<and>
                (\<forall>s. content m ! i = ImageContentPart s \<longrightarrow>
                     (\<exists>u. URL s = Some u \<and> parts ! i = LanguageModelV1ImagePart u)))"
    by (simp add: convertToLanguageModelMessage_def)
next
  fix pre s post
  assume u: "role m = ''user''"
    and h: "content m = pre @ ImageContentPart s # post
           \<and> list_all (well_formed_user_part URL) pre \<and> URL s = None"
  from h mapE_convertUserPart_well_formed [of URL pre] obtain parts
    where "mapE (convertUserPart URL) pre = Inr parts" by blast
  with h have "mapE (convertUserPart URL) (content m) = Inl (InvalidURL s)"
    by (simp add: mapE_append)
  with u show "convertToLanguageModelMessage URL m = Inl (InvalidURL s)"
    by (simp add: convertToLanguageModelMessage_def)
next
  fix s show "taxonomy (InvalidURL s) = Some MalformedContent" by simp
qed

theorem user_message_conversion_witness:
  "convertToLanguageModelMessage example_URL
     \<lparr>role = ''user'',
      content = [TextContentPart ''look'', ImageContentPart ''https://example.com/cat.png'']\<rparr>
     = Inr [UserPrompt [UserTextPart ''look'',
                        LanguageModelV1ImagePart ''https://example.com/cat.png'']]
 \<and> convertToLanguageModelMessage example_URL
     \<lparr>role = ''user'',
      content = [TextContentPart ''look'', ImageContentPart ''cat.png'', TextContentPart ''bye'']\<rparr>
     = Inl (InvalidURL ''cat.png'')"
proof -
  let ?good = "\<lparr>role = ''user'',
      content = [TextContentPart ''look'', ImageContentPart ''https://example.com/cat.png'']\<rparr>"
  let ?bad = "\<lparr>role = ''user'',
      content = [TextContentPart ''look'', ImageContentPart ''cat.png'', TextContentPart ''bye'']\<rparr>"
  have wf: "list_all (well_formed_user_part example_URL) (content ?good)"
    by (simp add: well_formed_user_part_def example_URL_def)
  have "role ?good = ''user''" by simp
  from user_message_conversion [OF this, of example_URL] wf obtain parts
    where p: "convertToLanguageModelMessage example_URL ?good = Inr [UserPrompt parts]"
      "length parts = 2"
      "\<forall>i<2. (\<forall>t. content ?good ! i = TextContentPart t \<longrightarrow> parts ! i = UserTextPart t) \<and>
             (\<forall>s. content ?good ! i = ImageContentPart s \<longrightarrow>
                 (\<exists>u. example_URL s = Some u \<and> parts ! i = LanguageModelV1ImagePart u))"
    by auto
  from p(3) [THEN spec, of 0] have "parts ! 0 = UserTextPart ''look''" by simp
  moreover from p(3) [THEN spec, of 1]
  have "parts ! 1 = LanguageModelV1ImagePart ''https://example.com/cat.png''"
    by (simp add: example_URL_def)
  moreover from p(2) obtain a b where "parts = [a, b]"
    by (cases parts; cases "tl parts") auto
  ultimately have "parts = [UserTextPart ''look'',
      LanguageModelV1ImagePart ''https://example.com/cat.png'']"
    by simp
  with p(1) have good: "convertToLanguageModelMessage example_URL ?good
     = Inr [UserPrompt [UserTextPart ''look'',
                        LanguageModelV1ImagePart ''https://example.com/cat.png'']]"
    by simp
  have "content ?bad
        = [TextContentPart ''look''] @ ImageContentPart ''cat.png'' # [TextContentPart ''bye'']
      \<and> list_all (well_formed_user_part example_URL) [TextContentPart ''look'']
      \<and> example_URL ''cat.png'' = None"
    by (simp add: well_formed_user_part_def example_URL_def)
  moreover have "role ?bad = ''user''" by simp
  from user_message_conversion [OF this, of example_URL, THEN conjunct2]
  have "content ?bad
        = [TextContentPart ''look''] @ ImageContentPart ''cat.png'' # [TextContentPart ''bye'']
      \<and> list_all (well_formed_user_part example_URL) [TextContentPart ''look'']
      \<and> example_URL ''cat.png'' = None
    \<longrightarrow> convertToLanguageModelMessage example_URL ?bad = Inl (InvalidURL ''cat.png'')
      \<and> taxonomy (InvalidURL ''cat.png'') = Some MalformedContent"
    by blast
  ultimately have "convertToLanguageModelMessage example_URL ?bad = Inl (InvalidURL ''cat.png'')"
    by blast
  with good show ?thesis by blast
qed

section \<open>Roles\<close>

lemma flatMapE_first_error:
  "flatMapE f pre = Inr out \<Longrightarrow> f m = Inl e \<Longrightarrow> flatMapE f (pre @ m # post) = Inl e"
  by (simp add: flatMapE_append)

lemma mapE_not_UnknownMessageRole:
  "mapE (convertUserPart URL) ps \<noteq> Inl (UnknownMessageRole r)"
proof (induction ps)
  case Nil
  then show ?case by simp
next
  case (Cons p ps)
  then show ?case by (cases p) (auto split: sum.splits option.splits)
qed

lemma addParts_not_UnknownMessageRole:
  "addParts s ps \<noteq> Inl (UnknownMessageRole r)"
  by (induction s ps rule: addParts.induct) auto

text \<open>
  Claim C8. A message whose role is none of \<open>system\<close>, \<open>user\<close>, \<open>assistant\<close> makes the
  conversion throw \<open>UnknownMessageRole\<close> (the specification's \<open>UnknownRole\<close>); in a
  conversation whose earlier messages convert, the whole conversion throws it and returns
  no prompt, whatever follows the message. A message with one of the three roles never
  takes this branch.
\<close>

theorem unknown_role_fails:
  "(role m \<notin> {''system'', ''user'', ''assistant''} \<longrightarrow>
      convertToLanguageModelMessage URL m = Inl (UnknownMessageRole (role m))
    \<and> taxonomy (UnknownMessageRole (role m)) = Some UnknownRole
    \<and> (\<forall>pre post out. convertToLanguageModelPrompt URL None pre = Inr out \<longrightarrow>
          convertToLanguageModelPrompt URL system (pre @ m # post)
            = Inl (UnknownMessageRole (role m))))
 \<and> (role m \<in> {''system'', ''user'', ''assistant''} \<longrightarrow>
      (\<forall>r. convertToLanguageModelMessage URL m \<noteq> Inl (UnknownMessageRole r)))"
proof (intro conjI impI allI)
  assume "role m \<notin> {''system'', ''user'', ''assistant''}"
  then show u: "convertToLanguageModelMessage URL m = Inl (UnknownMessageRole (role m))"
    by (simp add: convertToLanguageModelMessage_def)
  show "taxonomy (UnknownMessageRole (role m)) = Some UnknownRole" by simp
  fix pre post out
  assume "convertToLanguageModelPrompt URL None pre = Inr out"
  then have "flatMapE (convertToLanguageModelMessage URL) pre = Inr out"
    by (simp add: convertToLanguageModelPrompt_None)
  from flatMapE_first_error [OF this u]
  show "convertToLanguageModelPrompt URL system (pre @ m # post)
      = Inl (UnknownMessageRole (role m))"
    by (simp add: convertToLanguageModelPrompt_def)
next
  fix r
  assume "role m \<in> {''system'', ''user'', ''assistant''}"
  then consider "role m = ''system''" | "role m = ''user''" | "role m = ''assistant''"
    by auto
  then show "convertToLanguageModelMessage URL m \<noteq> Inl (UnknownMessageRole r)"
  proof cases
    case 1
    then show ?thesis
      by (simp add: convertToLanguageModelMessage_def split: list.splits)
  next
    case 2
    then show ?thesis
      using mapE_not_UnknownMessageRole [of URL "content m" r]
      by (auto simp: convertToLanguageModelMessage_def split: sum.splits)
  next
    case 3
    then show ?thesis
      using addParts_not_UnknownMessageRole [of assistantMessageSplitter "content m" r]
      by (auto simp: convertToLanguageModelMessage_def split: sum.splits)
  qed
qed

theorem unknown_role_fails_witness:
  "convertToLanguageModelMessage example_URL \<lparr>role = ''moderator'', content = []\<rparr>
     = Inl (UnknownMessageRole ''moderator'')
 \<and> convertToLanguageModelPrompt example_URL (Some ''be terse'')
      ([\<lparr>role = ''user'', content = [TextContentPart ''hi'']\<rparr>]
       @ \<lparr>role = ''moderator'', content = []\<rparr>
       # [\<lparr>role = ''assistant'', content = [TextContentPart ''ok'']\<rparr>])
     = Inl (UnknownMessageRole ''moderator'')
 \<and> convertToLanguageModelMessage example_URL
      \<lparr>role = ''user'', content = [UnknownContentPart ''audio'']\<rparr>
     \<noteq> Inl (UnknownMessageRole ''user'')"
proof -
  let ?m = "\<lparr>role = ''moderator'', content = []\<rparr>"
  let ?u = "\<lparr>role = ''user'', content = [UnknownContentPart ''audio'']\<rparr>"
  have other: "role ?m \<notin> {''system'', ''user'', ''assistant''}" by simp
  have pre: "convertToLanguageModelPrompt example_URL None
      [\<lparr>role = ''user'', content = [TextContentPart ''hi'']\<rparr>]
      = Inr [UserPrompt [UserTextPart ''hi'']]"
    by (simp add: convertToLanguageModelPrompt_def convertToLanguageModelMessage_def)
  have supported: "role ?u \<in> {''system'', ''user'', ''assistant''}" by simp
  from unknown_role_fails [of ?m example_URL "Some ''be terse''"] other
  have 1: "convertToLanguageModelMessage example_URL ?m = Inl (UnknownMessageRole (role ?m))"
    and 2: "\<forall>pre post out. convertToLanguageModelPrompt example_URL None pre = Inr out \<longrightarrow>
          convertToLanguageModelPrompt example_URL (Some ''be terse'') (pre @ ?m # post)
            = Inl (UnknownMessageRole (role ?m))"
    by blast+
  from unknown_role_fails [of ?u example_URL] supported
  have 3: "convertToLanguageModelMessage example_URL ?u \<noteq> Inl (UnknownMessageRole ''user'')"
    by blast
  from 1 2 [THEN spec, THEN spec, THEN spec, THEN mp, OF pre] 3
  show ?thesis by simp
qed

text \<open>
  Claim C10. A system message with an empty content array does not convert to a system
  prompt message: reading \<open>.text\<close> of its missing first entry throws a \<open>TypeError\<close>, which
  is none of the three kinds of failure that the specification names, and the conversion
  of a conversation that holds such a message throws it too. The read is not guarded:
  with a first entry the message converts to what that entry's \<open>text\<close> property holds.
\<close>

theorem empty_system_content_unhandled:
  "convertToLanguageModelMessage URL \<lparr>role = ''system'', content = []\<rparr> = Inl CannotReadText
 \<and> (\<forall>t. convertToLanguageModelMessage URL \<lparr>role = ''system'', content = []\<rparr>
          \<noteq> Inr [SystemPrompt t])
 \<and> taxonomy CannotReadText = None
 \<and> convertToLanguageModelPrompt URL system [\<lparr>role = ''system'', content = []\<rparr>]
     = Inl CannotReadText
 \<and> convertToLanguageModelMessage URL \<lparr>role = ''system'', content = part # rest\<rparr>
     = Inr [SystemPrompt (text_field part)]"
  by (simp add: convertToLanguageModelMessage_def convertToLanguageModelPrompt_def)

section \<open>Tool messages follow their assistant message\<close>

lemma tool_calls_append [simp]: "tool_calls (xs @ ys) = tool_calls xs @ tool_calls ys"
  by (induction xs rule: tool_calls.induct) auto

lemma tool_results_append [simp]: "tool_results (xs @ ys) = tool_results xs @ tool_results ys"
  by (induction xs rule: tool_results.induct) auto

lemma tool_follows_assistant_append:
  "tool_follows_assistant prev (xs @ ys) =
     (tool_follows_assistant prev xs
      \<and> tool_follows_assistant (if xs = [] then prev else Some (last xs)) ys)"
  by (induction prev xs rule: tool_follows_assistant.induct) auto

lemma tool_follows_assistant_nth:
  "tool_follows_assistant prev out \<Longrightarrow> i < length out \<Longrightarrow> out ! i = ToolPrompt results \<Longrightarrow>
     \<exists>parts. (if i = 0 then prev else Some (out ! (i - 1))) = Some (AssistantPrompt parts)
           \<and> resolves parts results"
proof (induction out arbitrary: prev i)
  case Nil
  then show ?case by simp
next
  case (Cons msg rest)
  show ?case
  proof (cases i)
    case 0
    with Cons.prems show ?thesis
      by (auto split: option.splits LanguageModelV1Message.splits)
  next
    case (Suc j)
    from Cons.prems(1) have "tool_follows_assistant (Some msg) rest"
      by (cases msg) auto
    moreover from Cons.prems Suc have "j < length rest" "rest ! j = ToolPrompt results"
      by auto
    ultimately have "\<exists>parts. (if j = 0 then Some msg else Some (rest ! (j - 1)))
          = Some (AssistantPrompt parts) \<and> resolves parts results"
      by (rule Cons.IH)
    with Suc show ?thesis by (cases j) auto
  qed
qed

lemma splitter_inv_init: "splitter_inv assistantMessageSplitter"
  by (simp add: splitter_inv_def assistantMessageSplitter_def resolves_def)

lemma splitter_inv_addTextContentPart:
  "splitter_inv s \<Longrightarrow> splitter_inv (addTextContentPart s t)"
  by (auto simp: splitter_inv_def addTextContentPart_def resolves_def Let_def
      tool_follows_assistant_append)

lemma splitter_inv_addToolCallPart:
  "splitter_inv s \<Longrightarrow> splitter_inv (addToolCallPart s i n a r)"
  by (auto simp: splitter_inv_def addToolCallPart_def resolves_def Let_def split: option.splits)

lemma splitter_inv_addParts:
  "splitter_inv s \<Longrightarrow> addParts s ps = Inr s' \<Longrightarrow> splitter_inv s'"
  by (induction s ps rule: addParts.induct)
    (auto simp: splitter_inv_addTextContentPart splitter_inv_addToolCallPart)

lemma getMessages_tool_follows_assistant:
  "splitter_inv s \<Longrightarrow> tool_follows_assistant None (getMessages s)"
  by (auto simp: splitter_inv_def getMessages_def tool_follows_assistant_append)

lemma addParts_well_formed:
  "list_all well_formed_assistant_part ps \<Longrightarrow> \<exists>s'. addParts s ps = Inr s'"
proof (induction ps arbitrary: s)
  case Nil
  then show ?case by simp
next
  case (Cons p ps)
  then show ?case by (cases p) (simp_all add: well_formed_assistant_part_def)
qed

text \<open>
  Claim C4. An assistant message whose parts are text parts and tool calls converts to a
  sequence of prompt messages. In the sequence that an assistant message converts to, a
  tool message at position \<open>i\<close> is never the first message; the message before it is an
  assistant message, and every entry of the tool message has the call id and the tool
  name of a tool call of that assistant message; and the message after it, if there is
  one, is not a tool message.
\<close>

theorem tool_message_follows_its_assistant_message:
  "role m = ''assistant'' \<Longrightarrow>
     (list_all well_formed_assistant_part (content m) \<longrightarrow>
        (\<exists>out. convertToLanguageModelMessage (URL :: string \<Rightarrow> 'url option) m = Inr out))
   \<and> (\<forall>out i results.
         convertToLanguageModelMessage URL m = Inr out \<and> i < length out
           \<and> out ! i = ToolPrompt results \<longrightarrow>
         0 < i
         \<and> (\<exists>parts. out ! (i - 1) = AssistantPrompt parts
               \<and> set (tool_results results) \<subseteq> set (tool_calls parts))
         \<and> (Suc i < length out \<longrightarrow> (\<forall>results'. out ! Suc i \<noteq> ToolPrompt results')))"
proof (rule conjI)
  assume r: "role m = ''assistant''"
  show "list_all well_formed_assistant_part (content m) \<longrightarrow>
        (\<exists>out. convertToLanguageModelMessage URL m = Inr out)"
  proof
    assume "list_all well_formed_assistant_part (content m)"
    then obtain s' :: "'url splitter"
      where "addParts assistantMessageSplitter (content m) = Inr s'"
      using addParts_well_formed by blast
    with r show "\<exists>out. convertToLanguageModelMessage URL m = Inr out"
      by (simp add: convertToLanguageModelMessage_def)
  qed
next
  assume r: "role m = ''assistant''"
  show "\<forall>out i results.
         convertToLanguageModelMessage URL m = Inr out \<and> i < length out
           \<and> out ! i = ToolPrompt results \<longrightarrow>
         0 < i
         \<and> (\<exists>parts. out ! (i - 1) = AssistantPrompt parts
               \<and> set (tool_results results) \<subseteq> set (tool_calls parts))
         \<and> (Suc i < length out \<longrightarrow> (\<forall>results'. out ! Suc i \<noteq> ToolPrompt results'))"
  proof (intro allI impI)
    fix out i results
    assume h: "convertToLanguageModelMessage URL m = Inr out \<and> i < length out
             \<and> out ! i = ToolPrompt results"
    then have i: "i < length out" "out ! i = ToolPrompt results" by simp_all
    from r h obtain s where s: "addParts assistantMessageSplitter (content m) = Inr s"
      and out: "out = getMessages s"
      by (auto simp: convertToLanguageModelMessage_def split: sum.splits)
    from splitter_inv_addParts [OF splitter_inv_init s] out
    have tfa: "tool_follows_assistant None out"
      by (simp add: getMessages_tool_follows_assistant)
    from tool_follows_assistant_nth [OF tfa i]
    have 1: "0 < i" and 2: "\<exists>parts. out ! (i - 1) = AssistantPrompt parts
           \<and> set (tool_results results) \<subseteq> set (tool_calls parts)"
      by (auto simp: resolves_def split: if_splits)
    have 3: "\<forall>results'. out ! Suc i \<noteq> ToolPrompt results'" if "Suc i < length out"
    proof
      fix results'
      show "out ! Suc i \<noteq> ToolPrompt results'"
      proof
        assume "out ! Suc i = ToolPrompt results'"
        from tool_follows_assistant_nth [OF tfa that this] i show False by simp
      qed
    qed
    from 1 2 3 show "0 < i
           \<and> (\<exists>parts. out ! (i - 1) = AssistantPrompt parts
                 \<and> set (tool_results results) \<subseteq> set (tool_calls parts))
           \<and> (Suc i < length out \<longrightarrow> (\<forall>results'. out ! Suc i \<noteq> ToolPrompt results'))"
      by blast
  qed
qed

theorem tool_message_follows_its_assistant_message_witness:
  "convertToLanguageModelMessage example_URL
     \<lparr>role = ''assistant'',
      content = [ToolCallContentPart ''1'' ''search'' (JObject [(''q'', JString ''x'')])
                   (Some (JString ''42'')),
                 TextContentPart ''x'',
                 ToolCallContentPart ''2'' ''fetch'' (JObject []) (Some (JNumber 7))]\<rparr>
     = Inr [AssistantPrompt [LanguageModelV1ToolCallPart ''1'' ''search''
                               (JObject [(''q'', JString ''x'')])],
            ToolPrompt [ToolResultPart ''1'' ''search'' (JString ''42'')],
            AssistantPrompt [LanguageModelV1TextPart ''x'',
                             LanguageModelV1ToolCallPart ''2'' ''fetch'' (JObject [])],
            ToolPrompt [ToolResultPart ''2'' ''fetch'' (JNumber 7)]]
 \<and> (\<exists>parts. [AssistantPrompt [LanguageModelV1ToolCallPart ''1'' ''search''
                               (JObject [(''q'', JString ''x'')])],
            ToolPrompt [ToolResultPart ''1'' ''search'' (JString ''42'')],
            AssistantPrompt [LanguageModelV1TextPart ''x'',
                             LanguageModelV1ToolCallPart ''2'' ''fetch'' (JObject [])],
            ToolPrompt [ToolResultPart ''2'' ''fetch'' (JNumber 7)]] ! (3 - 1)
          = (AssistantPrompt parts :: string LanguageModelV1Message)
        \<and> set (tool_results [ToolResultPart ''2'' ''fetch'' (JNumber 7)])
            \<subseteq> set (tool_calls parts))"
proof -
  let ?m = "\<lparr>role = ''assistant'',
      content = [ToolCallContentPart ''1'' ''search'' (JObject [(''q'', JString ''x'')])
                   (Some (JString ''42'')),
                 TextContentPart ''x'',
                 ToolCallContentPart ''2'' ''fetch'' (JObject []) (Some (JNumber 7))]\<rparr>"
  let ?out = "[AssistantPrompt [LanguageModelV1ToolCallPart ''1'' ''search''
                               (JObject [(''q'', JString ''x'')])],
            ToolPrompt [ToolResultPart ''1'' ''search'' (JString ''42'')],
            AssistantPrompt [LanguageModelV1TextPart ''x'',
                             LanguageModelV1ToolCallPart ''2'' ''fetch'' (JObject [])],
            ToolPrompt [ToolResultPart ''2'' ''fetch'' (JNumber 7)]]
            :: string LanguageModelV1Message list"
  have r: "role ?m = ''assistant''" by simp
  have c: "convertToLanguageModelMessage example_URL ?m = Inr ?out"
    by (simp add: convertToLanguageModelMessage_def assistantMessageSplitter_def
        addToolCallPart_def addTextContentPart_def getMessages_def)
  have i: "3 < length ?out" by simp
  have t: "?out ! 3 = ToolPrompt [ToolResultPart ''2'' ''fetch'' (JNumber 7)]" by simp
  from tool_message_follows_its_assistant_message [OF r, of example_URL, THEN conjunct2,
      THEN spec, THEN spec, THEN spec, of ?out 3 "[ToolResultPart ''2'' ''fetch'' (JNumber 7)]"]
    c i t
  have "\<exists>parts. ?out ! (3 - 1) = AssistantPrompt parts
        \<and> set (tool_results [ToolResultPart ''2'' ''fetch'' (JNumber 7)])
            \<subseteq> set (tool_calls parts)"
    by blast
  with c show ?thesis by blast
qed

section \<open>Tool calls with a result that JavaScript reads as false\<close>

text \<open>
  What \<open>addToolCallPart\<close> does: the call is appended to the current assistant message, the
  stash is left alone, and a result entry is appended exactly when the part has a result
  that is truthy.
\<close>

lemma addToolCallPart_effect:
  "stash (addToolCallPart s i n a r) = stash s
 \<and> assistantMessage (addToolCallPart s i n a r)
     = assistantMessage s @ [LanguageModelV1ToolCallPart i n a]
 \<and> toolMessage (addToolCallPart s i n a r)
     = (case r of
          None \<Rightarrow> toolMessage s
        | Some v \<Rightarrow> if truthy v then toolMessage s @ [ToolResultPart i n v] else toolMessage s)"
  by (simp add: addToolCallPart_def Let_def split: option.splits)

text \<open>
  What \<open>addTextContentPart\<close> does: with a result in the current tool message, the current
  pair moves to the end of the stash and the text starts a new assistant message;
  otherwise the text is appended to the current assistant message.
\<close>

lemma addTextContentPart_effect:
  "addTextContentPart s t =
     (if toolMessage s \<noteq> []
      then \<lparr>stash = stash s @ [AssistantPrompt (assistantMessage s), ToolPrompt (toolMessage s)],
            assistantMessage = [LanguageModelV1TextPart t],
            toolMessage = []\<rparr>
      else s\<lparr>assistantMessage := assistantMessage s @ [LanguageModelV1TextPart t]\<rparr>)"
  by (simp add: addTextContentPart_def Let_def)

text \<open>
  With results that are truthy, a call with result, a text and a second call with result
  give two pairs.
\<close>

lemma splitter_rotation_truthy_results:
  "truthy resultA \<Longrightarrow> truthy resultB \<Longrightarrow>
   convertToLanguageModelMessage URL
     \<lparr>role = ''assistant'',
      content = [ToolCallContentPart idA nameA argsA (Some resultA),
                 TextContentPart ''x'',
                 ToolCallContentPart idB nameB argsB (Some resultB)]\<rparr>
     = Inr [AssistantPrompt [LanguageModelV1ToolCallPart idA nameA argsA],
            ToolPrompt [ToolResultPart idA nameA resultA],
            AssistantPrompt [LanguageModelV1TextPart ''x'',
                             LanguageModelV1ToolCallPart idB nameB argsB],
            ToolPrompt [ToolResultPart idB nameB resultB]]"
  by (simp add: convertToLanguageModelMessage_def assistantMessageSplitter_def
      addToolCallPart_def addTextContentPart_def getMessages_def)

text \<open>
  Claim C2, at a tool call whose result is the number \<open>0\<close>: the part carries a result, the
  call is appended to the assistant message, and no result entry is appended; the message
  converts to an assistant prompt message alone, as if the call were pending.
\<close>

theorem addToolCallPart_falsy_result:
  "toolMessage (addToolCallPart assistantMessageSplitter
      ''1'' ''count'' (JObject []) (Some (JNumber 0))) = []
 \<and> assistantMessage (addToolCallPart assistantMessageSplitter
      ''1'' ''count'' (JObject []) (Some (JNumber 0)))
     = [LanguageModelV1ToolCallPart ''1'' ''count'' (JObject [])]
 \<and> convertToLanguageModelMessage URL
      \<lparr>role = ''assistant'',
       content = [ToolCallContentPart ''1'' ''count'' (JObject []) (Some (JNumber 0))]\<rparr>
     = Inr [AssistantPrompt [LanguageModelV1ToolCallPart ''1'' ''count'' (JObject [])]]"
  by (simp add: convertToLanguageModelMessage_def assistantMessageSplitter_def
      addToolCallPart_def getMessages_def)

text \<open>
  Claim C1, at a message whose first tool call has the result \<open>false\<close>: call A with result,
  the text \<open>x\<close>, call B with result. No result of A was recorded, so the text does not start
  a new pair: the message converts to one assistant message holding A, the text and B,
  and one tool message holding the result of B.
\<close>

theorem splitter_rotation_falsy_result:
  "convertToLanguageModelMessage URL
     \<lparr>role = ''assistant'',
      content = [ToolCallContentPart ''1'' ''check'' (JObject []) (Some (JBool False)),
                 TextContentPart ''x'',
                 ToolCallContentPart ''2'' ''search'' (JObject []) (Some (JString ''42''))]\<rparr>
     = Inr [AssistantPrompt [LanguageModelV1ToolCallPart ''1'' ''check'' (JObject []),
                             LanguageModelV1TextPart ''x'',
                             LanguageModelV1ToolCallPart ''2'' ''search'' (JObject [])],
            ToolPrompt [ToolResultPart ''2'' ''search'' (JString ''42'')]]"
  by (simp add: convertToLanguageModelMessage_def assistantMessageSplitter_def
      addToolCallPart_def addTextContentPart_def getMessages_def)

end
